theory Spec2Isabelle
  imports Main "HOL-Library.Sublist"
begin

section \<open>Student management backend: data model\<close>

text \<open>
  The program is \<^verbatim>\<open>backend/server.py\<close>: a FastAPI application over two MongoDB
  collections, \<^verbatim>\<open>db.users\<close> and \<^verbatim>\<open>db.students\<close>.

  Instants (\<^verbatim>\<open>datetime\<close> values) are integers counting microseconds since the epoch,
  the resolution of Python's \<^verbatim>\<open>datetime\<close>. The handlers store an instant as its
  \<^verbatim>\<open>isoformat()\<close> text and read it back with \<^verbatim>\<open>fromisoformat\<close>; that round trip is
  the identity on aware datetimes, so a stored instant is modelled as the instant itself.

  Every value the program obtains from outside (a clock reading of \<^verbatim>\<open>datetime.now\<close>, a
  fresh \<^verbatim>\<open>uuid.uuid4()\<close>, the bcrypt salt) is an explicit argument of the handler that
  draws it, one argument per call in the order the calls happen.
\<close>

type_synonym time = int

text \<open>
  A raised \<^verbatim>\<open>HTTPException(status_code, detail)\<close> is a value.
  \<open>RequestValidationError\<close> is the framework's refusal of a request body (status
  422). Any other exception that leaves a handler is \<open>Unhandled\<close> (FastAPI answers it
  with status 500).
\<close>

datatype error = HTTPException nat string | RequestValidationError | Unhandled string

text \<open>
  The configuration read at start-up: the signing key and the passlib context. bcrypt
  draws a salt for every hash, hence the first argument of \<open>pwd_hash\<close>. passlib is
  not part of the repository; its two entry points are parameters, and either may raise
  instead of returning.
\<close>

record config =
  SECRET_KEY :: string
  pwd_hash :: "string \<Rightarrow> string \<Rightarrow> error + string"
  pwd_verify :: "string \<Rightarrow> string \<Rightarrow> error + bool"

definition ACCESS_TOKEN_EXPIRE_MINUTES :: int where
  "ACCESS_TOKEN_EXPIRE_MINUTES = 60 * 24"

definition timedelta_minutes :: "int \<Rightarrow> time" where
  "timedelta_minutes m = m * 60 * 1000000"

subsection \<open>Pydantic models\<close>

record UserRegister =
  reg_email :: string
  reg_password :: string
  reg_name :: string
  reg_role :: string

record UserLogin =
  login_email :: string
  login_password :: string

text \<open>
  \<open>User\<close> is the response model. The document kept in \<^verbatim>\<open>db.users\<close> is the dump of a
  \<open>User\<close> with the key \<^verbatim>\<open>password_hash\<close> added, so it is the record extended by
  that field: \<open>User.extend\<close> adds the key, \<open>User.truncate\<close> is the dictionary
  comprehension that drops it.
\<close>

record User =
  user_id :: string
  user_email :: string
  name :: string
  role :: string
  user_created_at :: time

record user_doc = User +
  password_hash :: string

record StudentCreate =
  nim :: string
  nama :: string
  email :: string
  program_studi :: string
  angkatan :: int

text \<open>
  \<open>Student\<close> has the fields of \<open>StudentCreate\<close> and three more, each with a default
  factory. A document of \<^verbatim>\<open>db.students\<close> is the dump of a \<open>Student\<close>.
\<close>

record Student = StudentCreate +
  student_id :: string
  created_at :: time
  updated_at :: time

record StudentUpdate =
  upd_nim :: "string option"
  upd_nama :: "string option"
  upd_email :: "string option"
  upd_program_studi :: "string option"
  upd_angkatan :: "int option"

record db =
  users :: "user_doc list"
  students :: "Student list"

section \<open>Credential service\<close>

text \<open>
  The bcrypt handler refuses a password that contains a NUL character, when hashing and
  when verifying alike: it raises \<^verbatim>\<open>PasswordValueError\<close>, which neither
  \<^verbatim>\<open>get_password_hash\<close> nor \<^verbatim>\<open>verify_password\<close> catches.
\<close>

definition verify_password :: "config \<Rightarrow> string \<Rightarrow> string \<Rightarrow> error + bool" where
  "verify_password cfg plain_password hashed_password =
     (if CHR 0x00 \<in> set plain_password then Inl (Unhandled ''PasswordValueError'')
      else pwd_verify cfg plain_password hashed_password)"

definition get_password_hash :: "config \<Rightarrow> string \<Rightarrow> string \<Rightarrow> error + string" where
  "get_password_hash cfg salt password =
     (if CHR 0x00 \<in> set password then Inl (Unhandled ''PasswordValueError'')
      else pwd_hash cfg salt password)"

subsection \<open>The token library\<close>

text \<open>
  The module \<^verbatim>\<open>jwt\<close> that the program imports is the PyJWT package; it is not part of
  the repository. Its HS256 tokens are modelled symbolically: a well-formed token is the
  claims it carries together with the key it was signed under, and \<open>Malformed\<close> stands
  for every string that is not a compact JWS. The claims are \<^verbatim>\<open>sub\<close> and \<^verbatim>\<open>exp\<close>, the
  latter a NumericDate in whole seconds.
\<close>

record payload =
  sub :: "string option"
  exp :: "int option"

datatype jwt = Malformed string | Signed string payload

datatype jwt_exception = ExpiredSignatureError | InvalidSignatureError | DecodeError

text \<open>
  \<^verbatim>\<open>jwt.encode\<close> turns a \<^verbatim>\<open>datetime\<close> under \<^verbatim>\<open>exp\<close> into seconds with
  \<^verbatim>\<open>timegm(utctimetuple())\<close>, which drops the microseconds.
\<close>

definition timegm :: "time \<Rightarrow> int" where
  "timegm t = t div 1000000"

definition jwt_encode :: "string option \<Rightarrow> time option \<Rightarrow> string \<Rightarrow> jwt" where
  "jwt_encode sub_claim exp_claim key =
     Signed key \<lparr>sub = sub_claim, exp = map_option timegm exp_claim\<rparr>"

text \<open>
  \<^verbatim>\<open>jwt.decode\<close> parses, then verifies the signature, then the claims: a token whose
  \<^verbatim>\<open>exp\<close> is not after the current time raises \<^verbatim>\<open>ExpiredSignatureError\<close>.
\<close>

definition jwt_decode :: "jwt \<Rightarrow> string \<Rightarrow> time \<Rightarrow> jwt_exception + payload" where
  "jwt_decode token key now =
     (case token of
        Malformed s \<Rightarrow> Inl DecodeError
      | Signed k p \<Rightarrow>
          if k \<noteq> key then Inl InvalidSignatureError
          else (case exp p of
                  None \<Rightarrow> Inr p
                | Some e \<Rightarrow> if e * 1000000 \<le> now then Inl ExpiredSignatureError else Inr p))"

text \<open>
  The exception classes that the package exports at top level. An \<^verbatim>\<open>except\<close> clause
  names its class by an attribute of the module, looked up when the clause is reached.
\<close>

definition jwt_exception_names :: "string list" where
  "jwt_exception_names =
     [''PyJWTError'', ''InvalidTokenError'', ''DecodeError'', ''InvalidSignatureError'',
      ''ExpiredSignatureError'', ''InvalidAudienceError'', ''InvalidIssuerError'',
      ''InvalidIssuedAtError'', ''ImmatureSignatureError'', ''InvalidKeyError'',
      ''InvalidAlgorithmError'', ''MissingRequiredClaimError'', ''PyJWKError'',
      ''PyJWKSetError'', ''PyJWKClientError'']"

subsection \<open>Issuing and validating\<close>

definition create_access_token :: "config \<Rightarrow> time \<Rightarrow> string option \<Rightarrow> jwt" where
  "create_access_token cfg now data_sub =
     (let expire = now + timedelta_minutes ACCESS_TOKEN_EXPIRE_MINUTES
      in jwt_encode data_sub (Some expire) (SECRET_KEY cfg))"

text \<open>
  \<^verbatim>\<open>decode_token\<close> has two handlers. The first, \<^verbatim>\<open>except jwt.ExpiredSignatureError\<close>,
  is tried first. When it does not match, Python evaluates the expression of the second,
  \<^verbatim>\<open>jwt.JWTError\<close>; an attribute the module does not have raises \<^verbatim>\<open>AttributeError\<close>,
  which nothing catches.
\<close>

definition decode_token :: "config \<Rightarrow> time \<Rightarrow> jwt \<Rightarrow> error + payload" where
  "decode_token cfg now token =
     (case jwt_decode token (SECRET_KEY cfg) now of
        Inr p \<Rightarrow> Inr p
      | Inl e \<Rightarrow>
          if e = ExpiredSignatureError then Inl (HTTPException 401 ''Token has expired'')
          else if ''JWTError'' \<in> set jwt_exception_names
               then Inl (HTTPException 401 ''Invalid token'')
               else Inl (Unhandled ''AttributeError''))"

section \<open>Authentication gate\<close>

definition get_current_user :: "config \<Rightarrow> time \<Rightarrow> db \<Rightarrow> jwt \<Rightarrow> error + user_doc" where
  "get_current_user cfg now d token =
     (case decode_token cfg now token of
        Inl e \<Rightarrow> Inl e
      | Inr p \<Rightarrow>
          (case sub p of
             None \<Rightarrow> Inl (HTTPException 401 ''Invalid authentication credentials'')
           | Some e \<Rightarrow>
               (case find (\<lambda>u. user_email u = e) (users d) of
                  None \<Rightarrow> Inl (HTTPException 401 ''User not found'')
                | Some user \<Rightarrow> Inr user)))"

definition require_admin :: "user_doc \<Rightarrow> error + user_doc" where
  "require_admin current_user =
     (if role current_user \<noteq> ''admin''
      then Inl (HTTPException 403 ''Admin access required'')
      else Inr current_user)"

text \<open>
  \<^verbatim>\<open>Depends(require_admin)\<close>: FastAPI resolves \<^verbatim>\<open>get_current_user\<close>, hands its result
  to \<^verbatim>\<open>require_admin\<close>, and runs the handler only when neither raised.
\<close>

definition depends_require_admin :: "config \<Rightarrow> time \<Rightarrow> db \<Rightarrow> jwt \<Rightarrow> error + user_doc" where
  "depends_require_admin cfg now d token =
     (case get_current_user cfg now d token of
        Inl e \<Rightarrow> Inl e
      | Inr current_user \<Rightarrow> require_admin current_user)"

section \<open>User account layer\<close>

text \<open>
  Each handler returns its outcome and the store it leaves behind. \<^verbatim>\<open>insert_one\<close>
  appends; \<^verbatim>\<open>find_one\<close> returns the first document that matches. In \<open>register\<close>
  the password is hashed after the existence check and before the insert, so a hash that
  raises leaves the store as it was.
\<close>

definition register ::
  "config \<Rightarrow> string \<Rightarrow> time \<Rightarrow> string \<Rightarrow> db \<Rightarrow> UserRegister \<Rightarrow> (error + User) \<times> db" where
  "register cfg uuid4 now salt d user_data =
     (case find (\<lambda>u. user_email u = reg_email user_data) (users d) of
        Some existing_user \<Rightarrow> (Inl (HTTPException 400 ''Email already registered''), d)
      | None \<Rightarrow>
          (let user_obj = \<lparr>user_id = uuid4, user_email = reg_email user_data,
                           name = reg_name user_data, role = reg_role user_data,
                           user_created_at = now\<rparr>
           in (case get_password_hash cfg salt (reg_password user_data) of
                 Inl e \<Rightarrow> (Inl e, d)
               | Inr h \<Rightarrow>
                   (let user_dict = User.extend user_obj (user_doc.fields h)
                    in (Inr user_obj, d\<lparr>users := users d @ [user_dict]\<rparr>)))))"

record Token =
  access_token :: jwt
  token_type :: string
  user :: User

definition login :: "config \<Rightarrow> time \<Rightarrow> db \<Rightarrow> UserLogin \<Rightarrow> (error + Token) \<times> db" where
  "login cfg now d user_data =
     (case find (\<lambda>u. user_email u = login_email user_data) (users d) of
        None \<Rightarrow> (Inl (HTTPException 401 ''Invalid email or password''), d)
      | Some u \<Rightarrow>
          (case verify_password cfg (login_password user_data) (password_hash u) of
             Inl e \<Rightarrow> (Inl e, d)
           | Inr ok \<Rightarrow>
               if \<not> ok
               then (Inl (HTTPException 401 ''Invalid email or password''), d)
               else (let tok = create_access_token cfg now (Some (user_email u));
                         user_obj = User.truncate u
                     in (Inr \<lparr>access_token = tok, token_type = ''bearer'',
                              user = user_obj\<rparr>, d))))"

definition get_me :: "user_doc \<Rightarrow> User" where
  "get_me current_user = User.truncate current_user"

text \<open>The route \<^verbatim>\<open>GET /api/auth/me\<close>: the handler behind its dependency.\<close>

definition route_get_me :: "config \<Rightarrow> time \<Rightarrow> db \<Rightarrow> jwt \<Rightarrow> (error + User) \<times> db" where
  "route_get_me cfg now d token =
     (case get_current_user cfg now d token of
        Inl e \<Rightarrow> (Inl e, d)
      | Inr current_user \<Rightarrow> (Inr (get_me current_user), d))"

section \<open>Record store access layer\<close>

subsection \<open>Store primitives\<close>

text \<open>
  \<^verbatim>\<open>update_one\<close> and \<^verbatim>\<open>delete_one\<close> act on the first document that matches the
  filter, in the store's order; \<^verbatim>\<open>delete_one\<close> also reports how many it removed.
\<close>

fun update_one :: "('a \<Rightarrow> bool) \<Rightarrow> ('a \<Rightarrow> 'a) \<Rightarrow> 'a list \<Rightarrow> 'a list" where
  "update_one P f [] = []"
| "update_one P f (x # xs) = (if P x then f x # xs else x # update_one P f xs)"

fun delete_one :: "('a \<Rightarrow> bool) \<Rightarrow> 'a list \<Rightarrow> 'a list \<times> nat" where
  "delete_one P [] = ([], 0)"
| "delete_one P (x # xs) =
     (if P x then (xs, 1) else (case delete_one P xs of (ys, n) \<Rightarrow> (x # ys, n)))"

text \<open>
  The store encodes an integer in at most eight bytes. The driver raises
  \<^verbatim>\<open>OverflowError\<close> for any other integer in a document or a query, before anything
  reaches the store.
\<close>

definition int64 :: "int \<Rightarrow> bool" where
  "int64 a \<longleftrightarrow> - 9223372036854775808 \<le> a \<and> a \<le> 9223372036854775807"

subsection \<open>The regular expressions of the store\<close>

text \<open>
  The filters of \<^verbatim>\<open>get_students\<close> are \<^verbatim>\<open>$regex\<close> queries with option \<^verbatim>\<open>i\<close>: the
  store compiles the text it is given as a Perl-compatible regular expression and
  searches the field for a match anywhere, ignoring letter case. The model covers ASCII
  text only, where letter case is the case of A to Z, and of the patterns those built
  from ordinary characters and the dot. \<open>compile_regex\<close> is \<open>None\<close> on any other
  metacharacter, on NUL and on a character beyond ASCII; \<open>regex_find\<close> is \<open>None\<close> on
  a field value that is not ASCII. Where either is \<open>None\<close> the model says nothing
  about the query.
\<close>

definition ascii :: "string \<Rightarrow> bool" where
  "ascii s \<longleftrightarrow> list_all (\<lambda>c. \<not> digit7 c) s"

definition lower :: "char \<Rightarrow> char" where
  "lower c =
     (case map_of (zip ''ABCDEFGHIJKLMNOPQRSTUVWXYZ'' ''abcdefghijklmnopqrstuvwxyz'') c of
        None \<Rightarrow> c
      | Some l \<Rightarrow> l)"

datatype regex_atom = Lit char | AnyChar

definition regex_special :: "char list" where
  "regex_special = CHR 0x00 # CHR 0x5C # ''^$.[]|)(?+*{}''"

fun compile_regex :: "string \<Rightarrow> regex_atom list option" where
  "compile_regex [] = Some []"
| "compile_regex (c # cs) =
     (case compile_regex cs of
        None \<Rightarrow> None
      | Some r \<Rightarrow>
          if c = CHR ''.'' then Some (AnyChar # r)
          else if c \<in> set regex_special \<or> digit7 c then None
          else Some (Lit c # r))"

fun atom_matches :: "regex_atom \<Rightarrow> char \<Rightarrow> bool" where
  "atom_matches (Lit c) x = (lower c = lower x)"
| "atom_matches AnyChar x = (x \<noteq> CHR 0x0A)"

fun match_here :: "regex_atom list \<Rightarrow> string \<Rightarrow> bool" where
  "match_here [] s = True"
| "match_here (a # r) [] = False"
| "match_here (a # r) (x # xs) = (atom_matches a x \<and> match_here r xs)"

fun regex_search :: "regex_atom list \<Rightarrow> string \<Rightarrow> bool" where
  "regex_search r [] = match_here r []"
| "regex_search r (x # xs) = (match_here r (x # xs) \<or> regex_search r xs)"

definition regex_find :: "regex_atom list \<Rightarrow> string \<Rightarrow> bool option" where
  "regex_find r s = (if ascii s then Some (regex_search r s) else None)"

subsection \<open>Queries\<close>

text \<open>
  The dictionary \<^verbatim>\<open>query\<close> of \<^verbatim>\<open>get_students\<close> holds at most three entries, and a
  document is found when it satisfies every entry. An entry is added under Python's
  truth test of the parameter: \<^verbatim>\<open>None\<close>, the empty string and the number zero add
  nothing.
\<close>

datatype criterion = SearchOr string | ProgramStudiRegex string | AngkatanEq int

definition build_query :: "string option \<Rightarrow> string option \<Rightarrow> int option \<Rightarrow> criterion list" where
  "build_query search program_studi_q angkatan_q =
     (case search of None \<Rightarrow> [] | Some q \<Rightarrow> if q \<noteq> [] then [SearchOr q] else []) @
     (case program_studi_q of None \<Rightarrow> [] | Some q \<Rightarrow> if q \<noteq> [] then [ProgramStudiRegex q] else []) @
     (case angkatan_q of None \<Rightarrow> [] | Some a \<Rightarrow> if a \<noteq> 0 then [AngkatanEq a] else [])"

text \<open>
  \<open>encodable\<close>: the driver can encode the entry. \<open>compiles\<close>: the pattern of the
  entry lies in the modelled fragment. \<open>criterion_holds\<close>: the document satisfies the
  entry, as far as the model can tell.
\<close>

fun encodable :: "criterion \<Rightarrow> bool" where
  "encodable (SearchOr q) = True"
| "encodable (ProgramStudiRegex q) = True"
| "encodable (AngkatanEq a) = int64 a"

fun compiles :: "criterion \<Rightarrow> bool" where
  "compiles (SearchOr q) = (compile_regex q \<noteq> None)"
| "compiles (ProgramStudiRegex q) = (compile_regex q \<noteq> None)"
| "compiles (AngkatanEq a) = True"

fun criterion_holds :: "criterion \<Rightarrow> Student \<Rightarrow> bool option" where
  "criterion_holds (SearchOr q) s =
     (case compile_regex q of
        None \<Rightarrow> None
      | Some r \<Rightarrow>
          (case (regex_find r (nama s), regex_find r (nim s), regex_find r (email s)) of
             (Some a, Some b, Some c) \<Rightarrow> Some (a \<or> b \<or> c)
           | _ \<Rightarrow> None))"
| "criterion_holds (ProgramStudiRegex q) s =
     (case compile_regex q of
        None \<Rightarrow> None
      | Some r \<Rightarrow> regex_find r (program_studi s))"
| "criterion_holds (AngkatanEq a) s = Some (angkatan s = a)"

fun query_holds :: "criterion list \<Rightarrow> Student \<Rightarrow> bool option" where
  "query_holds [] s = Some True"
| "query_holds (c # cs) s =
     (case criterion_holds c s of
        None \<Rightarrow> None
      | Some a \<Rightarrow> (case query_holds cs s of None \<Rightarrow> None | Some b \<Rightarrow> Some (a \<and> b)))"

fun find_docs :: "criterion list \<Rightarrow> Student list \<Rightarrow> Student list option" where
  "find_docs query [] = Some []"
| "find_docs query (s # ss) =
     (case query_holds query s of
        None \<Rightarrow> None
      | Some a \<Rightarrow>
          (case find_docs query ss of
             None \<Rightarrow> None
           | Some found \<Rightarrow> Some (if a then s # found else found)))"

subsection \<open>Handlers\<close>

text \<open>
  \<^verbatim>\<open>Student(**student_data.model_dump())\<close> runs the three default factories in field
  order: \<^verbatim>\<open>uuid4()\<close> for \<^verbatim>\<open>id\<close>, then \<^verbatim>\<open>datetime.now\<close> for \<^verbatim>\<open>created_at\<close>, then
  \<^verbatim>\<open>datetime.now\<close> again for \<^verbatim>\<open>updated_at\<close>. The two clock readings are the
  arguments \<open>now1\<close> and \<open>now2\<close>. \<^verbatim>\<open>insert_one\<close> raises when \<^verbatim>\<open>angkatan\<close> does not
  fit eight bytes, and then nothing is inserted.
\<close>

definition create_student ::
  "string \<Rightarrow> time \<Rightarrow> time \<Rightarrow> db \<Rightarrow> StudentCreate \<Rightarrow> (error + Student) \<times> db" where
  "create_student uuid4 now1 now2 d student_data =
     (case find (\<lambda>s. nim s = nim student_data) (students d) of
        Some existing \<Rightarrow> (Inl (HTTPException 400 ''NIM already exists''), d)
      | None \<Rightarrow>
          (let student_obj = StudentCreate.extend student_data (Student.fields uuid4 now1 now2)
           in if \<not> int64 (angkatan student_obj)
              then (Inl (Unhandled ''OverflowError''), d)
              else (Inr student_obj, d\<lparr>students := students d @ [student_obj]\<rparr>)))"

text \<open>
  \<open>get_students\<close> raises when the driver cannot encode the query. Otherwise it is
  \<open>None\<close> when a pattern or a field value lies outside the modelled fragment, and else
  the first 1000 documents found, as \<^verbatim>\<open>to_list(1000)\<close> cuts.
\<close>

definition get_students ::
  "db \<Rightarrow> string option \<Rightarrow> string option \<Rightarrow> int option \<Rightarrow> (error + Student list) option" where
  "get_students d search program_studi_q angkatan_q =
     (let query = build_query search program_studi_q angkatan_q
      in if \<not> list_all encodable query then Some (Inl (Unhandled ''OverflowError''))
         else if \<not> list_all compiles query then None
         else map_option (\<lambda>found. Inr (take 1000 found)) (find_docs query (students d)))"

definition get_student :: "db \<Rightarrow> string \<Rightarrow> (error + Student) \<times> db" where
  "get_student d sid =
     (case find (\<lambda>s. student_id s = sid) (students d) of
        None \<Rightarrow> (Inl (HTTPException 404 ''Student not found''), d)
      | Some student \<Rightarrow> (Inr student, d))"

text \<open>
  \<^verbatim>\<open>update_data\<close> keeps the entries of the payload that are not \<^verbatim>\<open>None\<close>; it is
  empty when every field is. \<open>apply_set\<close> is the \<^verbatim>\<open>$set\<close> of \<^verbatim>\<open>update_data\<close> with
  the key \<^verbatim>\<open>updated_at\<close> added. \<^verbatim>\<open>update_one\<close> raises when \<^verbatim>\<open>update_data\<close>
  holds an \<^verbatim>\<open>angkatan\<close> that does not fit eight bytes (\<open>set_encodable\<close> fails), and
  then nothing is written.
\<close>

definition set_encodable :: "StudentUpdate \<Rightarrow> bool" where
  "set_encodable u \<longleftrightarrow> (case upd_angkatan u of None \<Rightarrow> True | Some a \<Rightarrow> int64 a)"

definition update_data_empty :: "StudentUpdate \<Rightarrow> bool" where
  "update_data_empty u \<longleftrightarrow>
     upd_nim u = None \<and> upd_nama u = None \<and> upd_email u = None \<and>
     upd_program_studi u = None \<and> upd_angkatan u = None"

definition apply_set :: "StudentUpdate \<Rightarrow> time \<Rightarrow> Student \<Rightarrow> Student" where
  "apply_set u now s =
     s\<lparr>nim := (case upd_nim u of None \<Rightarrow> nim s | Some v \<Rightarrow> v),
       nama := (case upd_nama u of None \<Rightarrow> nama s | Some v \<Rightarrow> v),
       email := (case upd_email u of None \<Rightarrow> email s | Some v \<Rightarrow> v),
       program_studi := (case upd_program_studi u of None \<Rightarrow> program_studi s | Some v \<Rightarrow> v),
       angkatan := (case upd_angkatan u of None \<Rightarrow> angkatan s | Some v \<Rightarrow> v),
       updated_at := now\<rparr>"

definition update_student ::
  "time \<Rightarrow> db \<Rightarrow> string \<Rightarrow> StudentUpdate \<Rightarrow> (error + Student) \<times> db" where
  "update_student now d sid student_data =
     (case find (\<lambda>s. student_id s = sid) (students d) of
        None \<Rightarrow> (Inl (HTTPException 404 ''Student not found''), d)
      | Some student \<Rightarrow>
          if \<not> update_data_empty student_data \<and> \<not> set_encodable student_data
          then (Inl (Unhandled ''OverflowError''), d)
          else
          (let d' = (if \<not> update_data_empty student_data
                     then d\<lparr>students :=
                            update_one (\<lambda>s. student_id s = sid) (apply_set student_data now)
                              (students d)\<rparr>
                     else d)
           in (case find (\<lambda>s. student_id s = sid) (students d') of
                 None \<Rightarrow> (Inl (Unhandled ''TypeError''), d')
               | Some updated_student \<Rightarrow> (Inr updated_student, d'))))"

definition delete_student :: "db \<Rightarrow> string \<Rightarrow> (error + string) \<times> db" where
  "delete_student d sid =
     (case delete_one (\<lambda>s. student_id s = sid) (students d) of
        (rest, deleted_count) \<Rightarrow>
          if deleted_count = 0
          then (Inl (HTTPException 404 ''Student not found''), d\<lparr>students := rest\<rparr>)
          else (Inr ''Student deleted successfully'', d\<lparr>students := rest\<rparr>))"

subsection \<open>The admin-gated routes\<close>

text \<open>
  \<^verbatim>\<open>POST /api/students\<close>, \<^verbatim>\<open>PUT /api/students/{id}\<close> and
  \<^verbatim>\<open>DELETE /api/students/{id}\<close> declare \<^verbatim>\<open>Depends(require_admin)\<close>: the handler
  runs on the store only after the dependency has returned a user.

  The first two take a request body, which the framework treats in two steps. Before it
  resolves any dependency it reads the body: a body sent as JSON that does not parse is
  answered with status 422 (\<open>BadJSON\<close>), a body that cannot be read at all with status
  400 (\<open>Unreadable\<close>). After the dependencies have returned, it validates what it read
  against the model of the handler: a body that parsed but does not fit the model, a body
  that was not sent as JSON, or no body at all (\<open>Invalid\<close>) is answered with status
  422; a body that fits (\<open>Valid\<close>) is handed to the handler.
\<close>

datatype 'a request_body = BadJSON | Unreadable | Invalid | Valid 'a

definition read_body :: "'a request_body \<Rightarrow> error option" where
  "read_body body =
     (case body of
        BadJSON \<Rightarrow> Some RequestValidationError
      | Unreadable \<Rightarrow> Some (HTTPException 400 ''There was an error parsing the body'')
      | Invalid \<Rightarrow> None
      | Valid x \<Rightarrow> None)"

definition validate_body :: "'a request_body \<Rightarrow> error + 'a" where
  "validate_body body = (case body of Valid x \<Rightarrow> Inr x | _ \<Rightarrow> Inl RequestValidationError)"

definition route_create_student ::
  "config \<Rightarrow> time \<Rightarrow> jwt \<Rightarrow> string \<Rightarrow> time \<Rightarrow> time \<Rightarrow> db \<Rightarrow> StudentCreate request_body
     \<Rightarrow> (error + Student) \<times> db" where
  "route_create_student cfg now token uuid4 now1 now2 d body =
     (case read_body body of
        Some e \<Rightarrow> (Inl e, d)
      | None \<Rightarrow>
          (case depends_require_admin cfg now d token of
             Inl e \<Rightarrow> (Inl e, d)
           | Inr current_user \<Rightarrow>
               (case validate_body body of
                  Inl e \<Rightarrow> (Inl e, d)
                | Inr student_data \<Rightarrow> create_student uuid4 now1 now2 d student_data)))"

definition route_update_student ::
  "config \<Rightarrow> time \<Rightarrow> jwt \<Rightarrow> time \<Rightarrow> db \<Rightarrow> string \<Rightarrow> StudentUpdate request_body
     \<Rightarrow> (error + Student) \<times> db" where
  "route_update_student cfg now token now1 d sid body =
     (case read_body body of
        Some e \<Rightarrow> (Inl e, d)
      | None \<Rightarrow>
          (case depends_require_admin cfg now d token of
             Inl e \<Rightarrow> (Inl e, d)
           | Inr current_user \<Rightarrow>
               (case validate_body body of
                  Inl e \<Rightarrow> (Inl e, d)
                | Inr student_data \<Rightarrow> update_student now1 d sid student_data)))"

definition route_delete_student ::
  "config \<Rightarrow> time \<Rightarrow> jwt \<Rightarrow> db \<Rightarrow> string \<Rightarrow> (error + string) \<times> db" where
  "route_delete_student cfg now token d sid =
     (case depends_require_admin cfg now d token of
        Inl e \<Rightarrow> (Inl e, d)
      | Inr current_user \<Rightarrow> delete_student d sid)"

text \<open>
  \<^verbatim>\<open>GET /api/students\<close> declares \<^verbatim>\<open>Depends(get_current_user)\<close>: any resolved
  identity may list.
\<close>

definition route_get_students ::
  "config \<Rightarrow> time \<Rightarrow> jwt \<Rightarrow> db \<Rightarrow> string option \<Rightarrow> string option \<Rightarrow> int option
     \<Rightarrow> (error + Student list) option" where
  "route_get_students cfg now token d search program_studi_q angkatan_q =
     (case get_current_user cfg now d token of
        Inl e \<Rightarrow> Some (Inl e)
      | Inr current_user \<Rightarrow> get_students d search program_studi_q angkatan_q)"

section \<open>Notions of the specification\<close>

text \<open>
  The specification speaks of a case-insensitive substring; \<open>ci_substring\<close> follows
  its words: after lowering both strings, the first occurs as a contiguous part of the
  second. It is case-insensitive for ASCII text, and the theorems use it on ASCII text
  only. A \<open>plain_pattern\<close> is an ASCII filter text without regular-expression
  metacharacters and without NUL. A document is an \<open>ascii_doc\<close> when the four text
  fields that the filters read are ASCII.
\<close>

definition ci_substring :: "string \<Rightarrow> string \<Rightarrow> bool" where
  "ci_substring q s \<longleftrightarrow> sublist (map lower q) (map lower s)"

definition plain_pattern :: "string \<Rightarrow> bool" where
  "plain_pattern q \<longleftrightarrow> list_all (\<lambda>c. c \<notin> set regex_special \<and> \<not> digit7 c) q"

definition ascii_doc :: "Student \<Rightarrow> bool" where
  "ascii_doc s \<longleftrightarrow> ascii (nama s) \<and> ascii (nim s) \<and> ascii (email s) \<and> ascii (program_studi s)"

section \<open>Example data\<close>

definition example_config :: config where
  "example_config =
     \<lparr>SECRET_KEY = ''secret'', pwd_hash = (\<lambda>salt pw. Inr (salt @ pw)),
      pwd_verify = (\<lambda>pw h. Inr (h = ''$2b$'' @ pw))\<rparr>"

definition admin_doc :: user_doc where
  "admin_doc = \<lparr>user_id = ''u1'', user_email = ''root@campus.id'', name = ''Root'',
                 role = ''admin'', user_created_at = 0, password_hash = ''$2b$rootpw''\<rparr>"

definition plain_doc :: user_doc where
  "plain_doc = \<lparr>user_id = ''u2'', user_email = ''budi@campus.id'', name = ''Budi'',
                 role = ''user'', user_created_at = 5, password_hash = ''$2b$budipw''\<rparr>"

definition alice :: Student where
  "alice = \<lparr>nim = ''A1'', nama = ''Alice'', email = ''alice@campus.id'',
             program_studi = ''Informatika'', angkatan = 2021,
             student_id = ''s1'', created_at = 10, updated_at = 10\<rparr>"

definition bob :: Student where
  "bob = \<lparr>nim = ''B2'', nama = ''Bob'', email = ''bob@campus.id'',
           program_studi = ''Fisika'', angkatan = 2022,
           student_id = ''s2'', created_at = 20, updated_at = 20\<rparr>"

definition example_db :: db where
  "example_db = \<lparr>users = [admin_doc, plain_doc], students = [alice, bob]\<rparr>"

definition eve_request :: UserRegister where
  "eve_request = \<lparr>reg_email = ''eve@campus.id'', reg_password = ''evepw'',
                   reg_name = ''Eve'', reg_role = ''admin''\<rparr>"

definition eve_doc :: user_doc where
  "eve_doc = \<lparr>user_id = ''u3'', user_email = ''eve@campus.id'', name = ''Eve'',
               role = ''admin'', user_created_at = 7, password_hash = ''$2b$evepw''\<rparr>"

definition eve_db :: db where
  "eve_db = \<lparr>users = [admin_doc, plain_doc, eve_doc], students = [alice, bob]\<rparr>"

definition citra_request :: StudentCreate where
  "citra_request = \<lparr>nim = ''C3'', nama = ''Citra'', email = ''citra@campus.id'',
                     program_studi = ''Kimia'', angkatan = 2023\<rparr>"

definition citra :: Student where
  "citra = \<lparr>nim = ''C3'', nama = ''Citra'', email = ''citra@campus.id'',
             program_studi = ''Kimia'', angkatan = 2023,
             student_id = ''s3'', created_at = 1000000, updated_at = 1000001\<rparr>"

definition rehashed_db :: db where
  "rehashed_db =
     \<lparr>users = [admin_doc\<lparr>password_hash := ''x''\<rparr>, plain_doc\<lparr>password_hash := ''y''\<rparr>],
      students = [alice, bob]\<rparr>"

definition other_config :: config where
  "other_config =
     \<lparr>SECRET_KEY = ''secret'', pwd_hash = (\<lambda>salt pw. Inr pw),
      pwd_verify = (\<lambda>pw h. Inr True)\<rparr>"

definition rename_only :: StudentUpdate where
  "rename_only = \<lparr>upd_nim = None, upd_nama = Some ''New'', upd_email = None,
                   upd_program_studi = None, upd_angkatan = None\<rparr>"

definition take_bobs_nim :: StudentUpdate where
  "take_bobs_nim = \<lparr>upd_nim = Some ''B2'', upd_nama = None, upd_email = None,
                     upd_program_studi = None, upd_angkatan = None\<rparr>"



definition nul_password :: string where
  "nul_password = [CHR ''a'', CHR 0x00, CHR ''b'']"

lemmas example_defs =
  example_config_def admin_doc_def plain_doc_def alice_def bob_def example_db_def
  eve_request_def eve_doc_def eve_db_def citra_request_def citra_def rehashed_db_def other_config_def
  rename_only_def take_bobs_nim_def

section \<open>Lists and the store primitives\<close>

lemma find_append_new:
  "find P xs = None \<Longrightarrow> P x \<Longrightarrow> find P (xs @ [x]) = Some x"
  by (induction xs) (auto split: if_splits)


lemma find_None_filter: "find P xs = None \<Longrightarrow> filter P xs = []"
  by (induction xs) (auto split: if_splits)

lemma find_None_iff_set: "find P xs = None \<longleftrightarrow> (\<forall>x \<in> set xs. \<not> P x)"
  by (induction xs) auto



lemma delete_one_none: "find P xs = None \<Longrightarrow> delete_one P xs = (xs, 0)"
  by (induction xs) (auto split: if_splits)

section \<open>Tokens: a day of validity\<close>

lemma trunc_le: "(x::int) div 1000000 * 1000000 \<le> x"
  by presburger

lemma trunc_gt: "(x::int) < x div 1000000 * 1000000 + 1000000"
  by presburger

lemma decode_issued:
  "decode_token cfg t' (create_access_token cfg t data_sub) =
     (if timegm (t + timedelta_minutes ACCESS_TOKEN_EXPIRE_MINUTES) * 1000000 \<le> t'
      then Inl (HTTPException 401 ''Token has expired'')
      else Inr \<lparr>sub = data_sub,
                exp = Some (timegm (t + timedelta_minutes ACCESS_TOKEN_EXPIRE_MINUTES))\<rparr>)"
  by (simp add: decode_token_def create_access_token_def jwt_encode_def jwt_decode_def Let_def)

text \<open>
  A token issued at \<open>t\<close> is accepted up to one second before \<open>t\<close> plus 24 hours (the
  second that \<open>timegm\<close> may cut off), and refused as expired from \<open>t\<close> plus 24 hours on.
\<close>

lemma issued_token_accepted:
  assumes "t' + 1000000 \<le> t + timedelta_minutes ACCESS_TOKEN_EXPIRE_MINUTES"
  shows "decode_token cfg t' (create_access_token cfg t data_sub) =
           Inr \<lparr>sub = data_sub,
                exp = Some (timegm (t + timedelta_minutes ACCESS_TOKEN_EXPIRE_MINUTES))\<rparr>"
proof -
  let ?x = "t + timedelta_minutes ACCESS_TOKEN_EXPIRE_MINUTES"
  have "?x < timegm ?x * 1000000 + 1000000"
    unfolding timegm_def by (rule trunc_gt)
  with assms have "\<not> timegm ?x * 1000000 \<le> t'" by linarith
  then show ?thesis
    by (simp only: decode_issued if_False)
qed

lemma issued_token_expired:
  assumes "t + timedelta_minutes ACCESS_TOKEN_EXPIRE_MINUTES \<le> t'"
  shows "decode_token cfg t' (create_access_token cfg t data_sub) =
           Inl (HTTPException 401 ''Token has expired'')"
proof -
  let ?x = "t + timedelta_minutes ACCESS_TOKEN_EXPIRE_MINUTES"
  have "timegm ?x * 1000000 \<le> ?x"
    unfolding timegm_def by (rule trunc_le)
  with assms have "timegm ?x * 1000000 \<le> t'" by linarith
  then show ?thesis
    by (simp only: decode_issued if_True)
qed

lemma issued_token_accepted_one_second_later:
  "decode_token cfg (t + 1000000) (create_access_token cfg t data_sub) =
     Inr \<lparr>sub = data_sub,
          exp = Some (timegm (t + timedelta_minutes ACCESS_TOKEN_EXPIRE_MINUTES))\<rparr>"
  by (rule issued_token_accepted)
     (simp add: timedelta_minutes_def ACCESS_TOKEN_EXPIRE_MINUTES_def)

lemma decode_token_key:
  "SECRET_KEY cfg' = SECRET_KEY cfg \<Longrightarrow>
   decode_token cfg' now token = decode_token cfg now token"
  by (simp add: decode_token_def)

lemma create_access_token_key:
  "SECRET_KEY cfg' = SECRET_KEY cfg \<Longrightarrow>
   create_access_token cfg' now s = create_access_token cfg now s"
  by (simp add: create_access_token_def)

lemma get_current_user_issued:
  assumes "t' + 1000000 \<le> t + timedelta_minutes ACCESS_TOKEN_EXPIRE_MINUTES"
      and "find (\<lambda>u. user_email u = e) (users d) = Some doc"
  shows "get_current_user cfg t' d (create_access_token cfg t (Some e)) = Inr doc"
  using assms(2) by (simp add: get_current_user_def issued_token_accepted [OF assms(1)])

section \<open>Token validation\<close>

text \<open>
  C2. \<open>decode_token\<close> is meant to answer a token that is neither valid nor expired with
  status 401 and the detail \<open>Invalid token\<close>. On a token that is not well formed, and
  on a token signed under another key, the library raises an error other than
  \<open>ExpiredSignatureError\<close>; the second handler then looks up \<^verbatim>\<open>jwt.JWTError\<close>, a name
  the module does not export, and the \<^verbatim>\<open>AttributeError\<close> of that lookup leaves
  \<open>decode_token\<close> unhandled instead of the 401. (The expiry half of the claim holds:
  \<open>issued_token_accepted_one_second_later\<close> and \<open>issued_token_expired\<close>.)
\<close>

theorem decode_token_invalid_token_unhandled:
  "decode_token example_config 0 (Malformed ''not-a-token'') = Inl (Unhandled ''AttributeError'')
   \<and> decode_token example_config 0
        (Signed ''another-key'' \<lparr>sub = Some ''root@campus.id'', exp = Some 86400\<rparr>)
       = Inl (Unhandled ''AttributeError'')"
  by (simp add: decode_token_def jwt_decode_def jwt_exception_names_def example_config_def)

section \<open>User accounts\<close>

lemma register_fresh:
  assumes "find (\<lambda>u. user_email u = reg_email user_data) (users d) = None"
      and "get_password_hash cfg salt (reg_password user_data) = Inr h"
  shows "register cfg uid now salt d user_data =
           (Inr \<lparr>user_id = uid, user_email = reg_email user_data, name = reg_name user_data,
                  role = reg_role user_data, user_created_at = now\<rparr>,
            d\<lparr>users := users d @
               [\<lparr>user_id = uid, user_email = reg_email user_data, name = reg_name user_data,
                 role = reg_role user_data, user_created_at = now,
                 password_hash = h\<rparr>]\<rparr>)"
  using assms by (simp add: register_def Let_def User.defs user_doc.defs)

lemma register_taken:
  assumes "find (\<lambda>u. user_email u = reg_email user_data) (users d) = Some x"
  shows "register cfg uid now salt d user_data =
           (Inl (HTTPException 400 ''Email already registered''), d)"
  using assms by (simp add: register_def)

lemma register_raises:
  assumes "find (\<lambda>u. user_email u = reg_email user_data) (users d) = None"
      and "get_password_hash cfg salt (reg_password user_data) = Inl e"
  shows "register cfg uid now salt d user_data = (Inl e, d)"
  using assms by (simp add: register_def Let_def)

text \<open>A registration that succeeds found the email free and the password hashable.\<close>

lemma register_success:
  assumes "fst (register cfg uid now salt d user_data) = Inr u"
  shows "find (\<lambda>u. user_email u = reg_email user_data) (users d) = None
       \<and> (\<exists>h. get_password_hash cfg salt (reg_password user_data) = Inr h)"
proof (cases "find (\<lambda>u. user_email u = reg_email user_data) (users d)")
  case (Some x)
  with assms show ?thesis by (simp add: register_taken)
next
  case None
  show ?thesis
  proof (cases "get_password_hash cfg salt (reg_password user_data)")
    case (Inl e)
    with assms None show ?thesis by (simp add: register_raises)
  next
    case (Inr h)
    with None show ?thesis by simp
  qed
qed

text \<open>
  A password with a NUL character stops a registration with an unhandled error, and
  nothing is stored.
\<close>

lemma register_nul_password:
  assumes "find (\<lambda>u. user_email u = reg_email user_data) (users d) = None"
      and "CHR 0x00 \<in> set (reg_password user_data)"
  shows "register cfg uid now salt d user_data = (Inl (Unhandled ''PasswordValueError''), d)"
  using assms by (simp add: register_raises get_password_hash_def)



lemma eve_hash: "get_password_hash example_config ''$2b$'' (reg_password eve_request) = Inr ''$2b$evepw''"
  by (simp add: get_password_hash_def example_defs)

lemma eve_fresh: "find (\<lambda>u. user_email u = reg_email eve_request) (users example_db) = None"
  by (simp add: example_defs)

lemma register_eve:
  "register example_config ''u3'' 7 ''$2b$'' example_db eve_request =
     (Inr (User.truncate eve_doc), eve_db)"
  by (simp add: register_fresh [OF eve_fresh eve_hash] User.defs eve_db_def)
     (simp add: example_defs)


subsection \<open>Login and registration failures\<close>

text \<open>
  When \<open>verify_password\<close> returns, a failing login has one answer: status 401 with the
  detail \<open>Invalid email or password\<close>, whether the email is unknown or the password
  wrong.
\<close>

lemma login_failures_identical_when_verify_returns:
  "(find (\<lambda>u. user_email u = login_email user_data) (users d) = None \<longrightarrow>
      login cfg now d user_data = (Inl (HTTPException 401 ''Invalid email or password''), d))
   \<and> (\<forall>u. find (\<lambda>u. user_email u = login_email user_data) (users d) = Some u
           \<and> verify_password cfg (login_password user_data) (password_hash u) = Inr False \<longrightarrow>
      login cfg now d user_data = (Inl (HTTPException 401 ''Invalid email or password''), d))"
  by (auto simp: login_def Let_def split: option.splits if_splits)

text \<open>
  C7. A failing login is meant to answer alike whether the email is unknown or the
  password does not verify. It does not for a password with a NUL character:
  \<open>verify_password\<close> raises on it, and \<open>login\<close> reaches \<open>verify_password\<close> only
  when a user with the email exists. For the email of an existing user the error leaves
  \<open>login\<close> unhandled (status 500); for an unknown email the answer is the 401. The
  two answers tell whether the email is registered.
\<close>

theorem login_nul_password_reveals_account:
  "login example_config 0 example_db
      \<lparr>login_email = ''budi@campus.id'', login_password = nul_password\<rparr> =
      (Inl (Unhandled ''PasswordValueError''), example_db)
   \<and> login example_config 0 example_db
      \<lparr>login_email = ''nobody@campus.id'', login_password = nul_password\<rparr> =
      (Inl (HTTPException 401 ''Invalid email or password''), example_db)"
  by (simp add: login_def verify_password_def example_defs nul_password_def)

text \<open>
  C9. When a user document with the request's email already exists, \<open>register\<close> fails
  with status 400 and leaves the store as it was. Hence a second registration of an email
  that was just registered fails, whatever its other fields, and the store still holds
  exactly one document with that email.
\<close>

theorem register_duplicate_email_conflict:
  "(find (\<lambda>u. user_email u = reg_email user_data) (users d) \<noteq> None \<longrightarrow>
      register cfg uid now salt d user_data =
        (Inl (HTTPException 400 ''Email already registered''), d))
   \<and> (\<forall>u d1. register cfg uid now salt d user_data = (Inr u, d1)
              \<and> reg_email again = reg_email user_data \<longrightarrow>
        register cfg uid' now' salt' d1 again =
          (Inl (HTTPException 400 ''Email already registered''), d1)
        \<and> length (filter (\<lambda>x. user_email x = reg_email user_data) (users d1)) = 1)"
proof (intro conjI impI allI)
  assume "find (\<lambda>u. user_email u = reg_email user_data) (users d) \<noteq> None"
  then show "register cfg uid now salt d user_data =
        (Inl (HTTPException 400 ''Email already registered''), d)"
    by (auto simp: register_taken)
next
  fix u d1
  assume a: "register cfg uid now salt d user_data = (Inr u, d1)
              \<and> reg_email again = reg_email user_data"
  then have "fst (register cfg uid now salt d user_data) = Inr u" by simp
  from register_success [OF this] obtain h where
    fresh: "find (\<lambda>u. user_email u = reg_email user_data) (users d) = None"
    and hashed: "get_password_hash cfg salt (reg_password user_data) = Inr h" by blast
  let ?doc = "\<lparr>user_id = uid, user_email = reg_email user_data, name = reg_name user_data,
               role = reg_role user_data, user_created_at = now, password_hash = h\<rparr>"
  from a have d1: "d1 = d\<lparr>users := users d @ [?doc]\<rparr>"
    by (simp add: register_fresh [OF fresh hashed])
  have "find (\<lambda>u. user_email u = reg_email user_data) (users d1) = Some ?doc"
    unfolding d1 using find_append_new [OF fresh, of ?doc] by simp
  with a show "register cfg uid' now' salt' d1 again =
          (Inl (HTTPException 400 ''Email already registered''), d1)"
    by (simp add: register_taken)
  show "length (filter (\<lambda>x. user_email x = reg_email user_data) (users d1)) = 1"
    unfolding d1 by (simp add: find_None_filter [OF fresh])
qed

theorem register_duplicate_email_conflict_witness:
  "find (\<lambda>u. user_email u = reg_email (eve_request\<lparr>reg_email := ''budi@campus.id''\<rparr>))
      (users example_db) \<noteq> None
   \<and> register example_config ''u3'' 7 ''$2b$'' example_db
       (eve_request\<lparr>reg_email := ''budi@campus.id''\<rparr>) =
       (Inl (HTTPException 400 ''Email already registered''), example_db)
   \<and> register example_config ''u3'' 7 ''$2b$'' example_db eve_request =
       (Inr (User.truncate eve_doc), eve_db)
   \<and> register example_config ''u4'' 8 ''$2b$'' eve_db (eve_request\<lparr>reg_role := ''user''\<rparr>) =
       (Inl (HTTPException 400 ''Email already registered''), eve_db)
   \<and> length (filter (\<lambda>x. user_email x = reg_email eve_request) (users eve_db)) = 1"
proof -
  have taken: "find (\<lambda>u. user_email u = reg_email (eve_request\<lparr>reg_email := ''budi@campus.id''\<rparr>))
      (users example_db) \<noteq> None"
    by (simp add: example_defs)
  have same: "reg_email (eve_request\<lparr>reg_role := ''user''\<rparr>) = reg_email eve_request"
    by simp
  show ?thesis
    using taken register_eve same
      register_duplicate_email_conflict
        [of "eve_request\<lparr>reg_email := ''budi@campus.id''\<rparr>" example_db example_config "''u3''" 7
          "''$2b$''"]
      register_duplicate_email_conflict
        [of eve_request example_db example_config "''u3''" 7 "''$2b$''"
          "eve_request\<lparr>reg_role := ''user''\<rparr>" "''u4''" 8 "''$2b$''"]
    by simp
qed

subsection \<open>What a response shows of a user\<close>

lemma truncate_email: "user_email (User.truncate u) = user_email u"
  by (simp add: User.truncate_def)

lemma find_truncate:
  "map User.truncate xs = map User.truncate ys \<Longrightarrow>
   map_option User.truncate (find (\<lambda>u. user_email u = e) xs) =
   map_option User.truncate (find (\<lambda>u. user_email u = e) ys)"
proof (induction xs arbitrary: ys)
  case Nil
  then show ?case by simp
next
  case (Cons x xs)
  then obtain y ys' where ys: "ys = y # ys'" by (cases ys) auto
  with Cons.prems have hd: "User.truncate x = User.truncate y"
    and tl: "map User.truncate xs = map User.truncate ys'" by auto
  from hd have "user_email x = user_email y"
    by (metis truncate_email)
  with Cons.IH [OF tl] hd show ?case unfolding ys by simp
qed

lemma register_returns:
  assumes "fst (register cfg uid now salt d user_data) = Inr u"
  shows "u = \<lparr>user_id = uid, user_email = reg_email user_data, name = reg_name user_data,
              role = reg_role user_data, user_created_at = now\<rparr>"
proof -
  from register_success [OF assms] obtain h where
    "find (\<lambda>u. user_email u = reg_email user_data) (users d) = None"
    "get_password_hash cfg salt (reg_password user_data) = Inr h" by blast
  from register_fresh [OF this, of uid now] assms show ?thesis by simp
qed

lemma login_success:
  "fst (login cfg now d user_data) = Inr t \<Longrightarrow>
   \<exists>u. find (\<lambda>u. user_email u = login_email user_data) (users d) = Some u
      \<and> t = \<lparr>access_token = create_access_token cfg now (Some (user_email u)),
              token_type = ''bearer'', user = User.truncate u\<rparr>"
  by (auto simp: login_def Let_def split: option.splits if_splits sum.splits)

lemma route_get_me_success:
  "fst (route_get_me cfg now d token) = Inr u \<Longrightarrow>
   \<exists>p e doc. decode_token cfg now token = Inr p \<and> sub p = Some e
      \<and> find (\<lambda>u. user_email u = e) (users d) = Some doc \<and> u = User.truncate doc"
  by (auto simp: route_get_me_def get_current_user_def get_me_def
      split: sum.splits option.splits)

text \<open>
  C8. The user value that \<open>register\<close>, \<open>login\<close> and the route of \<open>get_me\<close> return
  never carries the password hash, although the stored document does. The returned
  value is the stored document cut down to the fields of \<open>User\<close>, a type without the
  hash. Stated as independence: take two stores that agree on everything but the
  password hashes, and two configurations with the same signing key. Then two
  registrations that both succeed answer with the same user, whatever their passwords,
  salts and hash functions, while the document a registration stores holds the hash of
  its password; two logins that both succeed answer with the same token and user; and
  \<open>get_me\<close> answers with the same user.
\<close>

theorem password_hash_never_returned:
  assumes pub: "map User.truncate (users d') = map User.truncate (users d)"
      and key: "SECRET_KEY cfg' = SECRET_KEY cfg"
  shows "(\<forall>u u'. fst (register cfg uid now salt d user_data) = Inr u
              \<and> fst (register cfg' uid now salt' d' (user_data\<lparr>reg_password := pw'\<rparr>)) = Inr u'
              \<longrightarrow> u' = u)
       \<and> (\<forall>u. fst (register cfg uid now salt d user_data) = Inr u \<longrightarrow>
             (\<exists>doc. users (snd (register cfg uid now salt d user_data)) = users d @ [doc]
                \<and> User.truncate doc = u
                \<and> get_password_hash cfg salt (reg_password user_data) = Inr (password_hash doc)))
       \<and> (\<forall>t t'. fst (login cfg now d login_data) = Inr t
              \<and> fst (login cfg' now d' (login_data\<lparr>login_password := pw'\<rparr>)) = Inr t'
              \<longrightarrow> t' = t)
       \<and> (\<forall>u. fst (route_get_me cfg now d token) = Inr u \<longrightarrow>
              fst (route_get_me cfg' now d' token) = Inr u)"
proof (intro conjI allI impI)
  fix u u'
  assume a: "fst (register cfg uid now salt d user_data) = Inr u
      \<and> fst (register cfg' uid now salt' d' (user_data\<lparr>reg_password := pw'\<rparr>)) = Inr u'"
  from a register_returns [of cfg uid now salt d user_data u]
    register_returns [of cfg' uid now salt' d' "user_data\<lparr>reg_password := pw'\<rparr>" u']
  show "u' = u" by simp
next
  fix u
  assume r: "fst (register cfg uid now salt d user_data) = Inr u"
  from register_success [OF r] obtain h where
    fresh: "find (\<lambda>u. user_email u = reg_email user_data) (users d) = None"
    and hashed: "get_password_hash cfg salt (reg_password user_data) = Inr h" by blast
  from r register_fresh [OF fresh hashed, of uid now]
  show "\<exists>doc. users (snd (register cfg uid now salt d user_data)) = users d @ [doc]
          \<and> User.truncate doc = u
          \<and> get_password_hash cfg salt (reg_password user_data) = Inr (password_hash doc)"
    using hashed by (simp add: User.defs)
next
  fix t t'
  assume a: "fst (login cfg now d login_data) = Inr t
              \<and> fst (login cfg' now d' (login_data\<lparr>login_password := pw'\<rparr>)) = Inr t'"
  let ?P = "\<lambda>u. user_email u = login_email login_data"
  from a login_success [of cfg now d login_data t]
  obtain u where u: "find ?P (users d) = Some u"
    and t: "t = \<lparr>access_token = create_access_token cfg now (Some (user_email u)),
              token_type = ''bearer'', user = User.truncate u\<rparr>" by auto
  from a login_success [of cfg' now d' "login_data\<lparr>login_password := pw'\<rparr>" t']
  obtain u' where u': "find ?P (users d') = Some u'"
    and t': "t' = \<lparr>access_token = create_access_token cfg' now (Some (user_email u')),
              token_type = ''bearer'', user = User.truncate u'\<rparr>" by auto
  from find_truncate [OF pub, of "login_email login_data"] u u'
  have eq: "User.truncate u' = User.truncate u" by simp
  then have "user_email u' = user_email u"
    by (metis truncate_email)
  with eq t t' show "t' = t"
    by (simp add: create_access_token_key [OF key])
next
  fix u
  assume a: "fst (route_get_me cfg now d token) = Inr u"
  from route_get_me_success [OF a]
  obtain p e doc where p: "decode_token cfg now token = Inr p" "sub p = Some e"
    and doc: "find (\<lambda>u. user_email u = e) (users d) = Some doc" and u: "u = User.truncate doc"
    by blast
  from find_truncate [OF pub, of e] doc
  obtain doc' where doc': "find (\<lambda>u. user_email u = e) (users d') = Some doc'"
    and eq: "User.truncate doc' = User.truncate doc"
    by (cases "find (\<lambda>u. user_email u = e) (users d')") auto
  show "fst (route_get_me cfg' now d' token) = Inr u"
    using p doc' eq u
    by (simp add: route_get_me_def get_current_user_def get_me_def decode_token_key [OF key])
qed

lemma budi_token:
  "get_current_user example_config 50 example_db
      (create_access_token example_config 0 (Some ''budi@campus.id'')) = Inr plain_doc"
proof -
  have time: "50 + 1000000 \<le> 0 + timedelta_minutes ACCESS_TOKEN_EXPIRE_MINUTES"
    by (simp add: timedelta_minutes_def ACCESS_TOKEN_EXPIRE_MINUTES_def)
  have found: "find (\<lambda>u. user_email u = ''budi@campus.id'') (users example_db) = Some plain_doc"
    by (simp add: example_defs)
  show ?thesis
    by (rule get_current_user_issued [OF time found])
qed

lemma login_budi:
  "fst (login example_config 0 example_db
          \<lparr>login_email = ''budi@campus.id'', login_password = ''budipw''\<rparr>) =
     Inr \<lparr>access_token = create_access_token example_config 0 (Some ''budi@campus.id''),
          token_type = ''bearer'', user = User.truncate plain_doc\<rparr>"
  by (simp add: login_def verify_password_def Let_def example_defs)

lemma login_budi_rehashed:
  "fst (login other_config 0 rehashed_db
          (\<lparr>login_email = ''budi@campus.id'', login_password = ''budipw''\<rparr>
             \<lparr>login_password := ''anything''\<rparr>)) =
     Inr \<lparr>access_token = create_access_token other_config 0 (Some ''budi@campus.id''),
          token_type = ''bearer'',
          user = User.truncate (plain_doc\<lparr>password_hash := ''y''\<rparr>)\<rparr>"
  by (simp add: login_def verify_password_def Let_def example_defs)

lemma register_eve_rehashed:
  "fst (register other_config ''u3'' 7 ''salt'' rehashed_db
          (eve_request\<lparr>reg_password := ''another''\<rparr>)) = Inr (User.truncate eve_doc)"
proof -
  have fresh: "find (\<lambda>u. user_email u = reg_email (eve_request\<lparr>reg_password := ''another''\<rparr>))
      (users rehashed_db) = None"
    by (simp add: example_defs)
  have hashed: "get_password_hash other_config ''salt''
      (reg_password (eve_request\<lparr>reg_password := ''another''\<rparr>)) = Inr ''another''"
    by (simp add: get_password_hash_def example_defs)
  show ?thesis
    by (simp add: register_fresh [OF fresh hashed] User.defs) (simp add: example_defs)
qed

theorem password_hash_never_returned_witness:
  "map User.truncate (users rehashed_db) = map User.truncate (users example_db)
   \<and> SECRET_KEY other_config = SECRET_KEY example_config
   \<and> fst (register example_config ''u3'' 7 ''$2b$'' example_db eve_request)
       = Inr (User.truncate eve_doc)
   \<and> fst (register other_config ''u3'' 7 ''salt'' rehashed_db
            (eve_request\<lparr>reg_password := ''another''\<rparr>))
       = Inr (User.truncate eve_doc)
   \<and> users (snd (register example_config ''u3'' 7 ''$2b$'' example_db eve_request))
       = users example_db @ [eve_doc]
   \<and> get_password_hash example_config ''$2b$'' (reg_password eve_request)
       = Inr (password_hash eve_doc)
   \<and> fst (login example_config 0 example_db
            \<lparr>login_email = ''budi@campus.id'', login_password = ''budipw''\<rparr>)
       = Inr \<lparr>access_token = create_access_token example_config 0 (Some ''budi@campus.id''),
              token_type = ''bearer'', user = User.truncate plain_doc\<rparr>
   \<and> fst (login other_config 0 rehashed_db
            (\<lparr>login_email = ''budi@campus.id'', login_password = ''budipw''\<rparr>
               \<lparr>login_password := ''anything''\<rparr>))
       = Inr \<lparr>access_token = create_access_token example_config 0 (Some ''budi@campus.id''),
              token_type = ''bearer'', user = User.truncate plain_doc\<rparr>
   \<and> fst (route_get_me example_config 50 example_db
            (create_access_token example_config 0 (Some ''budi@campus.id'')))
       = Inr (User.truncate plain_doc)
   \<and> fst (route_get_me other_config 50 rehashed_db
            (create_access_token example_config 0 (Some ''budi@campus.id'')))
       = Inr (User.truncate plain_doc)"
proof -
  have pub: "map User.truncate (users rehashed_db) = map User.truncate (users example_db)"
    by (simp add: example_defs User.defs)
  have key: "SECRET_KEY other_config = SECRET_KEY example_config"
    by (simp add: example_defs)
  note indep = password_hash_never_returned [OF pub key]
  have reg: "fst (register example_config ''u3'' 7 ''$2b$'' example_db eve_request)
       = Inr (User.truncate eve_doc)"
    by (simp add: register_eve)
  from indep [where uid = "''u3''" and now = 7 and salt = "''$2b$''" and user_data = eve_request
      and salt' = "''salt''" and pw' = "''another''"]
    reg register_eve_rehashed
  obtain doc where stored: "users (snd (register example_config ''u3'' 7 ''$2b$'' example_db eve_request))
       = users example_db @ [doc]"
    and hash: "get_password_hash example_config ''$2b$'' (reg_password eve_request)
       = Inr (password_hash doc)"
    by blast
  from stored have "users eve_db = users example_db @ [doc]"
    by (simp add: register_eve)
  then have "doc = eve_doc"
    by (simp add: eve_db_def example_db_def)
  note stored' = stored [unfolded this] and hash' = hash [unfolded this]
  from indep [where now = 0 and pw' = "''anything''"
      and login_data = "\<lparr>login_email = ''budi@campus.id'', login_password = ''budipw''\<rparr>"]
    login_budi login_budi_rehashed
  have same_login: "\<lparr>access_token = create_access_token other_config 0 (Some ''budi@campus.id''),
          token_type = ''bearer'',
          user = User.truncate (plain_doc\<lparr>password_hash := ''y''\<rparr>)\<rparr>
     = \<lparr>access_token = create_access_token example_config 0 (Some ''budi@campus.id''),
          token_type = ''bearer'', user = User.truncate plain_doc\<rparr>"
    by blast
  have me: "fst (route_get_me example_config 50 example_db
            (create_access_token example_config 0 (Some ''budi@campus.id'')))
       = Inr (User.truncate plain_doc)"
    by (simp add: route_get_me_def get_me_def budi_token)
  from indep me
  have me': "fst (route_get_me other_config 50 rehashed_db
            (create_access_token example_config 0 (Some ''budi@campus.id'')))
       = Inr (User.truncate plain_doc)"
    by blast
  from pub key reg register_eve_rehashed stored' hash' login_budi
    login_budi_rehashed [unfolded same_login] me me'
  show ?thesis by (intro conjI)
qed

subsection \<open>The role gate\<close>

text \<open>
  C6, as the code has it. An authenticated actor whose role is not \<open>admin\<close> is
  refused with status 403 by the route of \<open>delete_student\<close>, and by the routes of
  \<open>create_student\<close> and \<open>update_student\<close> for every request body that the
  framework could read, whether or not the body is valid for the handler and whatever
  the student id; the store is left as it was. For an actor whose role is \<open>admin\<close>,
  \<open>require_admin\<close> returns the actor unchanged.
\<close>

theorem non_admin_forbidden:
  "(get_current_user cfg now d token = Inr actor \<and> role actor \<noteq> ''admin'' \<longrightarrow>
      (read_body body = None \<longrightarrow>
         route_create_student cfg now token uid now1 now2 d body =
           (Inl (HTTPException 403 ''Admin access required''), d))
    \<and> (read_body update_body = None \<longrightarrow>
         route_update_student cfg now token now1 d sid update_body =
           (Inl (HTTPException 403 ''Admin access required''), d))
    \<and> route_delete_student cfg now token d sid =
        (Inl (HTTPException 403 ''Admin access required''), d))
   \<and> (role actor = ''admin'' \<longrightarrow> require_admin actor = Inr actor)"
  by (simp add: route_create_student_def route_update_student_def route_delete_student_def
      depends_require_admin_def require_admin_def)

theorem non_admin_forbidden_witness:
  "get_current_user example_config 50 example_db
      (create_access_token example_config 0 (Some ''budi@campus.id'')) = Inr plain_doc
   \<and> role plain_doc \<noteq> ''admin''
   \<and> read_body (Valid citra_request) = None
   \<and> route_create_student example_config 50
        (create_access_token example_config 0 (Some ''budi@campus.id''))
        ''s3'' 1000000 1000001 example_db (Valid citra_request) =
        (Inl (HTTPException 403 ''Admin access required''), example_db)
   \<and> read_body (Invalid :: StudentUpdate request_body) = None
   \<and> route_update_student example_config 50
        (create_access_token example_config 0 (Some ''budi@campus.id''))
        1000000 example_db ''s1'' Invalid =
        (Inl (HTTPException 403 ''Admin access required''), example_db)
   \<and> route_delete_student example_config 50
        (create_access_token example_config 0 (Some ''budi@campus.id''))
        example_db ''s1'' =
        (Inl (HTTPException 403 ''Admin access required''), example_db)
   \<and> role admin_doc = ''admin''
   \<and> require_admin admin_doc = Inr admin_doc"
proof -
  let ?tok = "create_access_token example_config 0 (Some ''budi@campus.id'')"
  have plain: "role plain_doc \<noteq> ''admin''"
    by (simp add: plain_doc_def)
  have adm: "role admin_doc = ''admin''"
    by (simp add: admin_doc_def)
  have rb: "read_body (Valid citra_request) = None"
    "read_body (Invalid :: StudentUpdate request_body) = None"
    by (simp_all add: read_body_def)
  note refused = non_admin_forbidden
    [of example_config 50 example_db ?tok plain_doc "Valid citra_request" "''s3''" 1000000
      1000001 Invalid "''s1''", THEN conjunct1, rule_format, OF conjI, OF budi_token plain]
  note passed = non_admin_forbidden
    [of example_config 50 example_db ?tok admin_doc "Valid citra_request" "''s3''" 1000000
      1000001 Invalid "''s1''", THEN conjunct2, rule_format, OF adm]
  from refused rb have
    "route_create_student example_config 50 ?tok ''s3'' 1000000 1000001 example_db
        (Valid citra_request) = (Inl (HTTPException 403 ''Admin access required''), example_db)"
    "route_update_student example_config 50 ?tok 1000000 example_db ''s1'' Invalid =
        (Inl (HTTPException 403 ''Admin access required''), example_db)"
    "route_delete_student example_config 50 ?tok example_db ''s1'' =
        (Inl (HTTPException 403 ''Admin access required''), example_db)"
    by blast+
  with budi_token plain rb adm passed show ?thesis by (intro conjI)
qed

text \<open>
  C6 as stated fails: the framework reads the request body before it resolves
  \<open>require_admin\<close>. A non-admin who posts a body that is not JSON is answered
  with status 422, not 403.
\<close>

theorem non_admin_forbidden_counterexample:
  "get_current_user example_config 50 example_db
      (create_access_token example_config 0 (Some ''budi@campus.id'')) = Inr plain_doc
   \<and> role plain_doc \<noteq> ''admin''
   \<and> route_create_student example_config 50
        (create_access_token example_config 0 (Some ''budi@campus.id''))
        ''s3'' 1000000 1000001 example_db BadJSON =
        (Inl RequestValidationError, example_db)
   \<and> route_create_student example_config 50
        (create_access_token example_config 0 (Some ''budi@campus.id''))
        ''s3'' 1000000 1000001 example_db BadJSON \<noteq>
        (Inl (HTTPException 403 ''Admin access required''), example_db)"
proof -
  have "role plain_doc \<noteq> ''admin''"
    by (simp add: plain_doc_def)
  moreover have "route_create_student example_config 50
        (create_access_token example_config 0 (Some ''budi@campus.id''))
        ''s3'' 1000000 1000001 example_db BadJSON =
        (Inl RequestValidationError, example_db)"
    by (simp add: route_create_student_def read_body_def)
  ultimately show ?thesis using budi_token by simp
qed

section \<open>Student records\<close>

subsection \<open>Literal patterns\<close>

lemma dot_special: "CHR ''.'' \<in> set regex_special"
  by (simp add: regex_special_def)

lemma compile_plain: "plain_pattern q \<Longrightarrow> compile_regex q = Some (map Lit q)"
proof (induction q)
  case Nil
  then show ?case by simp
next
  case (Cons c q)
  then have c: "c \<notin> set regex_special" "\<not> digit7 c" and q: "plain_pattern q"
    by (simp_all add: plain_pattern_def)
  from c dot_special have "c \<noteq> CHR ''.''" by auto
  with c Cons.IH [OF q] show ?case by simp
qed

lemma match_here_lit: "match_here (map Lit q) s = prefix (map lower q) (map lower s)"
proof (induction q arbitrary: s)
  case Nil
  then show ?case by simp
next
  case (Cons c q)
  then show ?case by (cases s) auto
qed

lemma regex_search_lit: "regex_search (map Lit q) s = ci_substring q s"
proof (induction s)
  case Nil
  then show ?case by (cases q) (simp_all add: ci_substring_def)
next
  case (Cons x s)
  then show ?case
    by (simp add: ci_substring_def match_here_lit sublist_Cons_right)
qed

lemma regex_find_lit: "ascii s \<Longrightarrow> regex_find (map Lit q) s = Some (ci_substring q s)"
  by (simp add: regex_find_def regex_search_lit)

lemma ci_substring_empty: "ci_substring [] s"
  by (simp add: ci_substring_def)

subsection \<open>The three entries of the query\<close>

lemma query_holds_append:
  "query_holds (xs @ ys) s =
     (case query_holds xs s of
        None \<Rightarrow> None
      | Some a \<Rightarrow> (case query_holds ys s of None \<Rightarrow> None | Some b \<Rightarrow> Some (a \<and> b)))"
  by (induction xs) (auto split: option.splits)

lemma find_docs_filter:
  "(\<forall>s \<in> set ss. query_holds query s = Some (P s)) \<Longrightarrow>
   find_docs query ss = Some (filter P ss)"
  by (induction ss) auto

lemma holds_search:
  assumes "\<forall>q. search = Some q \<longrightarrow> plain_pattern q" and "ascii_doc s"
  shows "query_holds (case search of None \<Rightarrow> []
            | Some q \<Rightarrow> if q \<noteq> [] then [SearchOr q] else []) s =
         Some (\<forall>q. search = Some q \<longrightarrow>
                 ci_substring q (nama s) \<or> ci_substring q (nim s) \<or> ci_substring q (email s))"
proof (cases search)
  case None
  then show ?thesis by simp
next
  case (Some q)
  with assms have pl: "plain_pattern q" by simp
  from assms(2) have a: "ascii (nama s)" "ascii (nim s)" "ascii (email s)"
    by (simp_all add: ascii_doc_def)
  show ?thesis
  proof (cases "q = []")
    case True
    with Some show ?thesis by (simp add: ci_substring_empty)
  next
    case False
    with Some show ?thesis
      by (simp add: compile_plain [OF pl] regex_find_lit [OF a(1)] regex_find_lit [OF a(2)]
          regex_find_lit [OF a(3)])
  qed
qed

lemma holds_program_studi:
  assumes "\<forall>q. program_studi_q = Some q \<longrightarrow> plain_pattern q" and "ascii_doc s"
  shows "query_holds (case program_studi_q of None \<Rightarrow> []
            | Some q \<Rightarrow> if q \<noteq> [] then [ProgramStudiRegex q] else []) s =
         Some (\<forall>q. program_studi_q = Some q \<longrightarrow> ci_substring q (program_studi s))"
proof (cases program_studi_q)
  case None
  then show ?thesis by simp
next
  case (Some q)
  with assms have pl: "plain_pattern q" by simp
  from assms(2) have a: "ascii (program_studi s)"
    by (simp add: ascii_doc_def)
  show ?thesis
  proof (cases "q = []")
    case True
    with Some show ?thesis by (simp add: ci_substring_empty)
  next
    case False
    with Some show ?thesis
      by (simp add: compile_plain [OF pl] regex_find_lit [OF a])
  qed
qed

lemma holds_angkatan:
  assumes "angkatan_q \<noteq> Some 0"
  shows "query_holds (case angkatan_q of None \<Rightarrow> []
            | Some a \<Rightarrow> if a \<noteq> 0 then [AngkatanEq a] else []) s =
         Some (\<forall>a. angkatan_q = Some a \<longrightarrow> angkatan s = a)"
  using assms by (cases angkatan_q) auto

lemma build_query_admitted:
  assumes "\<forall>q. search = Some q \<longrightarrow> plain_pattern q"
      and "\<forall>q. program_studi_q = Some q \<longrightarrow> plain_pattern q"
      and "\<forall>a. angkatan_q = Some a \<longrightarrow> int64 a"
  shows "list_all encodable (build_query search program_studi_q angkatan_q)"
    and "list_all compiles (build_query search program_studi_q angkatan_q)"
  using assms
  by (auto simp: build_query_def compile_plain split: option.splits)

lemma get_students_plain:
  assumes "\<forall>q. search = Some q \<longrightarrow> plain_pattern q"
      and "\<forall>q. program_studi_q = Some q \<longrightarrow> plain_pattern q"
      and "angkatan_q \<noteq> Some 0"
      and "\<forall>a. angkatan_q = Some a \<longrightarrow> int64 a"
      and "\<forall>s \<in> set (students d). ascii_doc s"
  shows "get_students d search program_studi_q angkatan_q =
           Some (Inr (take 1000 (filter (\<lambda>s.
               (\<forall>q. search = Some q \<longrightarrow>
                   ci_substring q (nama s) \<or> ci_substring q (nim s) \<or> ci_substring q (email s))
             \<and> (\<forall>q. program_studi_q = Some q \<longrightarrow> ci_substring q (program_studi s))
             \<and> (\<forall>a. angkatan_q = Some a \<longrightarrow> angkatan s = a)) (students d))))"
proof -
  let ?P = "\<lambda>s. (\<forall>q. search = Some q \<longrightarrow>
                   ci_substring q (nama s) \<or> ci_substring q (nim s) \<or> ci_substring q (email s))
             \<and> (\<forall>q. program_studi_q = Some q \<longrightarrow> ci_substring q (program_studi s))
             \<and> (\<forall>a. angkatan_q = Some a \<longrightarrow> angkatan s = a)"
  have "query_holds (build_query search program_studi_q angkatan_q) s = Some (?P s)"
    if "ascii_doc s" for s
    unfolding build_query_def query_holds_append
    by (simp only: holds_search [OF assms(1) that] holds_program_studi [OF assms(2) that]
        holds_angkatan [OF assms(3)] option.case)
  with assms(5) have "find_docs (build_query search program_studi_q angkatan_q) (students d)
      = Some (filter ?P (students d))"
    by (intro find_docs_filter) blast
  with build_query_admitted [OF assms(1,2,4)] show ?thesis
    by (simp add: get_students_def Let_def)
qed

lemma find_docs_all: "find_docs [] ss = Some ss"
  by (induction ss) auto

text \<open>
  The filter \<open>angkatan\<close> is added under Python's truth test, so the year zero adds
  nothing to the query and every document is found. A year that does not fit eight bytes
  cannot be encoded, and the query raises.
\<close>

lemma get_students_angkatan_zero:
  "get_students d None None (Some 0) = Some (Inr (take 1000 (students d)))"
  by (simp add: get_students_def build_query_def find_docs_all)

lemma get_students_angkatan_overflow:
  "\<not> int64 a \<Longrightarrow>
   get_students d search program_studi_q (Some a) = Some (Inl (Unhandled ''OverflowError''))"
  by (auto simp: get_students_def build_query_def int64_def Let_def)

lemma plain_ali: "plain_pattern ''ali''"
  by (simp add: plain_pattern_def regex_special_def)

lemma ci_ali_alice: "ci_substring ''ali'' (nama alice)"
  by (simp add: ci_substring_def alice_def lower_def sublist_Cons_right)

lemma ci_ali_bob:
  "\<not> ci_substring ''ali'' (nama bob)" "\<not> ci_substring ''ali'' (nim bob)"
  "\<not> ci_substring ''ali'' (email bob)"
  by (simp_all add: ci_substring_def bob_def lower_def sublist_Cons_right)

lemma example_ascii: "\<forall>s \<in> set (students example_db). ascii_doc s"
  by (simp add: example_db_def alice_def bob_def ascii_doc_def ascii_def)

text \<open>
  C3, as the code has it. For an authenticated caller, a store whose text fields are
  ASCII, ASCII filter texts without regular-expression metacharacters, and an
  \<open>angkatan\<close> filter that is not zero and fits eight bytes, the route returns the
  first 1000 documents, in the order of the store, that satisfy every filter given:
  \<open>search\<close> is a case-insensitive substring of \<open>nama\<close> or of \<open>nim\<close> or of
  \<open>email\<close>, \<open>program_studi\<close> is a case-insensitive substring of the field of that
  name, and \<open>angkatan\<close> equals the field exactly.
\<close>

theorem get_students_filters:
  assumes "get_current_user cfg now d token = Inr actor"
      and "\<forall>q. search = Some q \<longrightarrow> plain_pattern q"
      and "\<forall>q. program_studi_q = Some q \<longrightarrow> plain_pattern q"
      and "angkatan_q \<noteq> Some 0"
      and "\<forall>a. angkatan_q = Some a \<longrightarrow> int64 a"
      and "\<forall>s \<in> set (students d). ascii_doc s"
  shows "route_get_students cfg now token d search program_studi_q angkatan_q =
           Some (Inr (take 1000 (filter (\<lambda>s.
               (\<forall>q. search = Some q \<longrightarrow>
                   ci_substring q (nama s) \<or> ci_substring q (nim s) \<or> ci_substring q (email s))
             \<and> (\<forall>q. program_studi_q = Some q \<longrightarrow> ci_substring q (program_studi s))
             \<and> (\<forall>a. angkatan_q = Some a \<longrightarrow> angkatan s = a)) (students d))))"
  using assms(1) by (simp add: route_get_students_def get_students_plain [OF assms(2-6)])

theorem get_students_filters_witness:
  "get_current_user example_config 50 example_db
      (create_access_token example_config 0 (Some ''budi@campus.id'')) = Inr plain_doc
   \<and> plain_pattern ''ali''
   \<and> int64 2021
   \<and> ascii_doc alice \<and> ascii_doc bob
   \<and> route_get_students example_config 50
        (create_access_token example_config 0 (Some ''budi@campus.id''))
        example_db (Some ''ali'') None (Some 2021) = Some (Inr [alice])"
proof -
  have q: "\<forall>q. Some ''ali'' = Some q \<longrightarrow> plain_pattern q"
    using plain_ali by simp
  have p: "\<forall>q. (None :: string option) = Some q \<longrightarrow> plain_pattern q"
    by simp
  have a: "Some (2021 :: int) \<noteq> Some 0"
    by simp
  have i: "int64 2021"
    by (simp add: int64_def)
  then have i': "\<forall>a. Some (2021 :: int) = Some a \<longrightarrow> int64 a"
    by simp
  have st: "students example_db = [alice, bob]"
    by (simp add: example_db_def)
  have yr: "angkatan alice = 2021"
    by (simp add: alice_def)
  have docs: "ascii_doc alice" "ascii_doc bob"
    using example_ascii by (simp_all add: st)
  have "route_get_students example_config 50
        (create_access_token example_config 0 (Some ''budi@campus.id''))
        example_db (Some ''ali'') None (Some 2021) = Some (Inr [alice])"
    unfolding get_students_filters [OF budi_token q p a i' example_ascii] st
    using ci_ali_alice ci_ali_bob yr by simp
  with budi_token plain_ali i docs show ?thesis by (intro conjI)
qed

text \<open>
  C3 as stated fails: the filter text is a regular expression. The search \<open>a.i\<close>
  returns Alice, whose \<open>nama\<close> matches the pattern, although \<open>a.i\<close> is a substring of
  none of her three fields.
\<close>

theorem get_students_substring_counterexample:
  "route_get_students example_config 50
      (create_access_token example_config 0 (Some ''budi@campus.id''))
      example_db (Some ''a.i'') None None = Some (Inr [alice])
   \<and> \<not> ci_substring ''a.i'' (nama alice)
   \<and> \<not> ci_substring ''a.i'' (nim alice)
   \<and> \<not> ci_substring ''a.i'' (email alice)"
proof -
  have "compile_regex ''a.i'' = Some [Lit CHR ''a'', AnyChar, Lit CHR ''i'']"
    by (simp add: regex_special_def)
  then have "get_students example_db (Some ''a.i'') None None = Some (Inr [alice])"
    by (simp add: get_students_def build_query_def example_db_def alice_def bob_def
        regex_find_def ascii_def lower_def)
  then have "route_get_students example_config 50
      (create_access_token example_config 0 (Some ''budi@campus.id''))
      example_db (Some ''a.i'') None None = Some (Inr [alice])"
    by (simp add: route_get_students_def budi_token)
  moreover have "\<not> ci_substring ''a.i'' (nama alice)" "\<not> ci_substring ''a.i'' (nim alice)"
    "\<not> ci_substring ''a.i'' (email alice)"
    by (simp_all add: ci_substring_def alice_def lower_def sublist_Cons_right)
  ultimately show ?thesis by (intro conjI)
qed

subsection \<open>Creating and updating\<close>




text \<open>
  An \<open>angkatan\<close> that does not fit eight bytes stops the update with an unhandled
  error, and nothing is written; likewise the insert of \<open>create_student\<close>.
\<close>

lemma update_student_overflow:
  assumes "find (\<lambda>s. student_id s = sid) (students d) = Some s"
      and "upd_angkatan u = Some a" and "\<not> int64 a"
  shows "update_student now d sid u = (Inl (Unhandled ''OverflowError''), d)"
  using assms by (simp add: update_student_def update_data_empty_def set_encodable_def)

lemma create_student_overflow:
  assumes "find (\<lambda>s. nim s = nim student_data) (students d) = None"
      and "\<not> int64 (angkatan student_data)"
  shows "create_student uid now1 now2 d student_data = (Inl (Unhandled ''OverflowError''), d)"
  using assms by (simp add: create_student_def Let_def StudentCreate.defs Student.defs)




text \<open>
  C5, as the code has it. The model \<open>Student\<close> fills \<open>created_at\<close> and
  \<open>updated_at\<close> from two separate readings of the clock, in that order. On success
  the returned record carries the first reading as \<open>created_at\<close> and the second as
  \<open>updated_at\<close>, the same record is appended to the store, and the two fields are
  equal exactly when the two readings are.
\<close>

theorem create_student_timestamps:
  assumes "fst (create_student uid now1 now2 d student_data) = Inr r"
  shows "created_at r = now1 \<and> updated_at r = now2
       \<and> (created_at r = updated_at r \<longleftrightarrow> now1 = now2)
       \<and> snd (create_student uid now1 now2 d student_data) = d\<lparr>students := students d @ [r]\<rparr>"
  using assms
  by (auto simp: create_student_def Let_def StudentCreate.defs Student.defs
      split: option.splits if_splits)

lemma create_citra:
  "fst (create_student ''s3'' 1000000 1000001 example_db citra_request) = Inr citra"
  by (simp add: create_student_def Let_def StudentCreate.defs Student.defs int64_def
      example_defs)

theorem create_student_timestamps_witness:
  "fst (create_student ''s3'' 1000000 1000001 example_db citra_request) = Inr citra
   \<and> created_at citra = 1000000 \<and> updated_at citra = 1000001
   \<and> snd (create_student ''s3'' 1000000 1000001 example_db citra_request) =
       example_db\<lparr>students := students example_db @ [citra]\<rparr>"
  using create_citra create_student_timestamps [OF create_citra] by simp

text \<open>
  C5 as stated fails: when the clock advances between the two readings, here by one
  microsecond, the record that is returned and stored has \<open>updated_at\<close> later than
  \<open>created_at\<close>.
\<close>

theorem create_student_timestamps_counterexample:
  "fst (create_student ''s3'' 1000000 1000001 example_db citra_request) = Inr citra
   \<and> created_at citra \<noteq> updated_at citra"
  by (simp add: create_student_def Let_def StudentCreate.defs Student.defs int64_def
      example_defs)

text \<open>
  Creation keeps the \<open>nim\<close> values of the store distinct: it refuses a \<open>nim\<close> that
  some document already has.
\<close>

lemma create_student_keeps_nim_unique:
  assumes "distinct (map nim (students d))"
  shows "distinct (map nim (students (snd (create_student uid now1 now2 d student_data))))"
proof (cases "find (\<lambda>s. nim s = nim student_data) (students d)")
  case None
  then have "nim student_data \<notin> nim ` set (students d)"
    by (auto simp: find_None_iff_set)
  with assms None show ?thesis
    by (simp add: create_student_def Let_def StudentCreate.defs Student.defs)
next
  case (Some existing)
  with assms show ?thesis by (simp add: create_student_def)
qed



end
